theory Spec2Isabelle
  imports Main "HOL-Library.Sublist"
begin

section \<open>Strings\<close>

text \<open>
  JavaScript strings are modelled as \<open>string\<close> (a list of 8-bit characters). The helpers
  below are the string methods the sources call. They act on the ASCII range: case
  folding touches \<open>A\<close> to \<open>Z\<close> only and white space is the six ASCII white-space
  characters, which is what remote URLs, paths and the output of git consist of.
\<close>

definition toLowerChar :: "char \<Rightarrow> char" where
  "toLowerChar c =
     (case map_of (zip ''ABCDEFGHIJKLMNOPQRSTUVWXYZ'' ''abcdefghijklmnopqrstuvwxyz'') c of
        Some l \<Rightarrow> l
      | None \<Rightarrow> c)"

definition toLowerCase :: "string \<Rightarrow> string" where
  "toLowerCase s = map toLowerChar s"

fun startsWith :: "string \<Rightarrow> string \<Rightarrow> bool" where
  "startsWith s [] = True"
| "startsWith [] (p # ps) = False"
| "startsWith (c # cs) (p # ps) = (c = p \<and> startsWith cs ps)"

text \<open>\<open>str_includes s sub\<close> is \<^verbatim>\<open>s.includes(sub)\<close>.\<close>

fun str_includes :: "string \<Rightarrow> string \<Rightarrow> bool" where
  "str_includes [] sub = (sub = [])"
| "str_includes (c # cs) sub = (startsWith (c # cs) sub \<or> str_includes cs sub)"

definition is_space :: "char \<Rightarrow> bool" where
  "is_space c = (c \<in> set [CHR 0x09, CHR 0x0A, CHR 0x0B, CHR 0x0C, CHR 0x0D, CHR '' ''])"

text \<open>\<^verbatim>\<open>s.trim()\<close>\<close>

definition trim :: "string \<Rightarrow> string" where
  "trim s = rev (dropWhile is_space (rev (dropWhile is_space s)))"

text \<open>\<^verbatim>\<open>path.basename(p)\<close> with the POSIX separator: trailing slashes are dropped, then the
  part after the last slash is taken.\<close>

definition basename :: "string \<Rightarrow> string" where
  "basename p = rev (takeWhile (\<lambda>c. c \<noteq> CHR ''/'') (dropWhile (\<lambda>c. c = CHR ''/'') (rev p)))"

text \<open>A number inside a template literal: its decimal digits.\<close>

definition digit_char :: "nat \<Rightarrow> char" where
  "digit_char d = ''0123456789'' ! d"

function show_nat :: "nat \<Rightarrow> string" where
  "show_nat n = (if n < 10 then [digit_char n] else show_nat (n div 10) @ [digit_char (n mod 10)])"
  by pat_completeness auto
termination
  by (relation "measure (\<lambda>n. n)") auto

text \<open>
  The first match of the regular expression \<^verbatim>\<open>/HEAD branch: (\S+)/\<close> in a string, as
  \<^verbatim>\<open>s.match(...)\<close> computes it: the leftmost position where the literal is followed by
  at least one character that is not white space; the group is the longest such run.
  \<open>None\<close> is JavaScript's \<^verbatim>\<open>null\<close>.
\<close>

fun match_HEAD_branch :: "string \<Rightarrow> string option" where
  "match_HEAD_branch [] = None"
| "match_HEAD_branch (c # cs) =
     (if startsWith (c # cs) ''HEAD branch: ''
         \<and> takeWhile (\<lambda>x. \<not> is_space x) (drop 13 (c # cs)) \<noteq> []
      then Some (takeWhile (\<lambda>x. \<not> is_space x) (drop 13 (c # cs)))
      else match_HEAD_branch cs)"

section \<open>The git handle\<close>

text \<open>A thrown JavaScript \<^verbatim>\<open>Error\<close>; only its message is ever read.\<close>

datatype error = Error string

fun error_message :: "error \<Rightarrow> string" where
  "error_message (Error m) = m"

text \<open>The commands of simple-git that the sources issue, with their arguments.\<close>

datatype git_cmd =
    CheckIsRepo
  | Revparse "string list"
  | GetRemotes bool
  | Remote "string list"
  | BranchLocal
  | Fetch "string list"
  | Status
  | Raw "string list"
  | Pull string string "string list"
  | Rebase "string list"
  | Commit "string list"

record BranchSummary =
  current :: string
  all_names :: "string list"

record StatusResult =
  behind :: nat
  modified :: "string list"
  not_added :: "string list"
  created :: "string list"
  deleted :: "string list"
  staged :: "string list"

record RemoteRefs =
  fetch :: string
  push :: string

record RemoteWithRefs =
  remote_name :: string
  refs :: RemoteRefs

text \<open>
  A \<^verbatim>\<open>SimpleGit\<close> instance is external: it is modelled by what it answers. Each field gives
  the outcome of one kind of command, \<open>Inl\<close> a rejected promise and \<open>Inr\<close> the resolved
  value, as a function of the sequence of commands issued so far, the command being
  answered last. So two calls of the same command may be answered differently.
\<close>

record SimpleGit =
  checkIsRepo_r :: "git_cmd list \<Rightarrow> error + bool"
  revparse_r :: "git_cmd list \<Rightarrow> error + string"
  getRemotes_r :: "git_cmd list \<Rightarrow> error + RemoteWithRefs list"
  remote_r :: "git_cmd list \<Rightarrow> error + string option"
  branchLocal_r :: "git_cmd list \<Rightarrow> error + BranchSummary"
  fetch_r :: "git_cmd list \<Rightarrow> error + unit"
  status_r :: "git_cmd list \<Rightarrow> error + StatusResult"
  raw_r :: "git_cmd list \<Rightarrow> error + string"
  pull_r :: "git_cmd list \<Rightarrow> error + unit"
  rebase_r :: "git_cmd list \<Rightarrow> error + string"
  commit_r :: "git_cmd list \<Rightarrow> error + string"

text \<open>Awaiting one command: it is appended to the trace and answered.\<close>

definition call :: "(git_cmd list \<Rightarrow> error + 'a) \<Rightarrow> git_cmd \<Rightarrow> git_cmd list
    \<Rightarrow> (error + 'a) \<times> git_cmd list" where
  "call r c t = (r (t @ [c]), t @ [c])"

section \<open>repository-context.ts\<close>

datatype RepositoryProvider = Github | Gitlab | Bitbucket | Azure | Local

record RepositoryMetadata =
  name :: string
  defaultBranch :: string
  remoteUrl :: "string option"
  provider :: RepositoryProvider
  lastFetched :: "nat option"

record RepositoryContext =
  ctx_id :: string
  path :: string
  ctx_name :: string
  git :: SimpleGit
  metadata :: RepositoryMetadata
  lastAccessed :: nat

text \<open>\<^verbatim>\<open>!remoteUrl\<close> holds of \<^verbatim>\<open>null\<close> and of the empty string.\<close>

definition detectProvider :: "string option \<Rightarrow> RepositoryProvider" where
  "detectProvider remote_url =
     (case remote_url of
        None \<Rightarrow> Local
      | Some r \<Rightarrow>
          if r = [] then Local
          else
            let url = toLowerCase r
            in if str_includes url ''github.com'' then Github
               else if str_includes url ''gitlab.com'' \<or> str_includes url ''gitlab'' then Gitlab
               else if str_includes url ''bitbucket.org'' \<or> str_includes url ''bitbucket''
                 then Bitbucket
               else if str_includes url ''azure.com'' \<or> str_includes url ''visualstudio.com''
                 then Azure
               else Local)"

text \<open>
  \<^verbatim>\<open>getDefaultBranch\<close>: two \<^verbatim>\<open>try\<close> blocks whose \<^verbatim>\<open>catch\<close> is empty, then the constant.
  The result is a sum so that "does not throw" is a statement about the function.
\<close>

definition getDefaultBranch :: "SimpleGit \<Rightarrow> git_cmd list \<Rightarrow> (error + string) \<times> git_cmd list" where
  "getDefaultBranch g t =
     (case call (remote_r g) (Remote [''show'', ''origin'']) t of (r1, t1) \<Rightarrow>
        (case (case r1 of
                 Inl e \<Rightarrow> None
               | Inr None \<Rightarrow> None
               | Inr (Some remoteInfo) \<Rightarrow>
                   if remoteInfo \<noteq> [] then match_HEAD_branch remoteInfo else None) of
           Some b \<Rightarrow> (Inr b, t1)
         | None \<Rightarrow>
             (case call (branchLocal_r g) BranchLocal t1 of (r2, t2) \<Rightarrow>
                (case r2 of
                   Inl e \<Rightarrow> (Inr ''main'', t2)
                 | Inr branches \<Rightarrow>
                     if ''main'' \<in> set (all_names branches) then (Inr ''main'', t2)
                     else if ''master'' \<in> set (all_names branches) then (Inr ''master'', t2)
                     else (case all_names branches of
                             b0 # _ \<Rightarrow> (Inr b0, t2)
                           | [] \<Rightarrow> (Inr ''main'', t2))))))"

text \<open>\<^verbatim>\<open>origin?.refs?.fetch || origin?.refs?.push || null\<close>: an empty string is falsy.\<close>

definition getRemoteUrl :: "SimpleGit \<Rightarrow> git_cmd list \<Rightarrow> (error + string option) \<times> git_cmd list" where
  "getRemoteUrl g t =
     (case call (getRemotes_r g) (GetRemotes True) t of (r, t1) \<Rightarrow>
        (case r of
           Inl e \<Rightarrow> (Inr None, t1)
         | Inr remotes \<Rightarrow>
             (case find (\<lambda>r. remote_name r = ''origin'') remotes of
                None \<Rightarrow> (Inr None, t1)
              | Some origin \<Rightarrow>
                  if fetch (refs origin) \<noteq> [] then (Inr (Some (fetch (refs origin))), t1)
                  else if push (refs origin) \<noteq> [] then (Inr (Some (push (refs origin))), t1)
                  else (Inr None, t1))))"

text \<open>
  \<^verbatim>\<open>createRepositoryContext\<close>. The constructor \<open>simpleGit\<close>, the identifier that
  \<^verbatim>\<open>uuidv4()\<close> draws and the clock are parameters.
\<close>

definition createRepositoryContext ::
    "(string \<Rightarrow> SimpleGit) \<Rightarrow> string \<Rightarrow> nat \<Rightarrow> string \<Rightarrow> git_cmd list
      \<Rightarrow> (error + RepositoryContext) \<times> git_cmd list" where
  "createRepositoryContext simpleGit uuid now repoPath t =
     (let g = simpleGit repoPath in
      case call (checkIsRepo_r g) CheckIsRepo t of
        (Inl e, t1) \<Rightarrow> (Inl e, t1)
      | (Inr isRepo, t1) \<Rightarrow>
          if \<not> isRepo then (Inl (Error (''Path is not a git repository: '' @ repoPath)), t1)
          else
            (case call (revparse_r g) (Revparse [''--show-toplevel'']) t1 of
               (Inl e, t2) \<Rightarrow> (Inl e, t2)
             | (Inr root, t2) \<Rightarrow>
                 let actualPath = trim root in
                 (case getRemoteUrl g t2 of
                    (Inl e, t3) \<Rightarrow> (Inl e, t3)
                  | (Inr url, t3) \<Rightarrow>
                      (case getDefaultBranch g t3 of
                         (Inl e, t4) \<Rightarrow> (Inl e, t4)
                       | (Inr branch, t4) \<Rightarrow>
                           (Inr \<lparr> ctx_id = uuid,
                                  path = actualPath,
                                  ctx_name = basename actualPath,
                                  git = simpleGit actualPath,
                                  metadata = \<lparr> name = basename actualPath,
                                               defaultBranch = branch,
                                               remoteUrl = url,
                                               provider = detectProvider url,
                                               lastFetched = None \<rparr>,
                                  lastAccessed = now \<rparr>, t4)))))"

section \<open>git-service.ts: the legacy globals\<close>

text \<open>
  The module's mutable globals \<^verbatim>\<open>let git\<close> and \<^verbatim>\<open>let repoPath\<close>, the stored setting
  "last repository path", and the state of the RepositoryManager, whose type is left open.
\<close>

record 'm AppState =
  legacy_git :: "SimpleGit option"
  legacy_repoPath :: "string option"
  lastRepoPath :: "string option"
  manager :: 'm

definition setRepoPath :: "(string \<Rightarrow> SimpleGit) \<Rightarrow> string \<Rightarrow> 'm AppState \<Rightarrow> 'm AppState" where
  "setRepoPath simpleGit newPath s =
     s\<lparr> legacy_repoPath := Some newPath, legacy_git := Some (simpleGit newPath) \<rparr>"

definition getRepoPath :: "'m AppState \<Rightarrow> string option" where
  "getRepoPath s = legacy_repoPath s"

text \<open>Modelled from the spec: \<^verbatim>\<open>saveLastRepoPath\<close> of the settings service, which is not
  among the sources, stores the last opened repository path.\<close>

definition saveLastRepoPath :: "string \<Rightarrow> 'm AppState \<Rightarrow> 'm AppState" where
  "saveLastRepoPath p s = s\<lparr> lastRepoPath := Some p \<rparr>"

text \<open>\<^verbatim>\<open>requireContext\<close>, given what \<^verbatim>\<open>manager.getActive()\<close> returns.\<close>

definition requireContext :: "RepositoryContext option \<Rightarrow> error + RepositoryContext" where
  "requireContext active =
     (case active of
        Some ctx \<Rightarrow> Inr ctx
      | None \<Rightarrow> Inl (Error
          ''No repository selected. Use RepositoryManager.open() to select a repository.''))"

section \<open>git-service.ts: pullCurrentBranch\<close>

record PullResult =
  success :: bool
  message :: string
  hadConflicts :: "bool option"
  autoStashed :: "bool option"

definition plural :: "nat \<Rightarrow> string" where
  "plural n = (if n > 1 then ''s'' else [])"

definition hasUncommittedChanges :: "StatusResult \<Rightarrow> bool" where
  "hasUncommittedChanges statusBefore =
     (length (modified statusBefore) > 0 \<or>
      length (not_added statusBefore) > 0 \<or>
      length (created statusBefore) > 0 \<or>
      length (deleted statusBefore) > 0 \<or>
      length (staged statusBefore) > 0)"

definition stash_push_args :: "string list" where
  "stash_push_args =
     [''stash'', ''push'', ''--include-untracked'', ''-m'', ''ledger-auto-stash-for-pull'']"

text \<open>The block "Restore stashed changes" that follows a pull which succeeded after a stash:
  one \<^verbatim>\<open>stash pop\<close> in a \<^verbatim>\<open>try\<close> whose \<^verbatim>\<open>catch\<close> returns.\<close>

definition restore_stash :: "SimpleGit \<Rightarrow> nat \<Rightarrow> git_cmd list \<Rightarrow> PullResult \<times> git_cmd list" where
  "restore_stash g n t =
     (case call (raw_r g) (Raw [''stash'', ''pop'']) t of
        (Inr _, t1) \<Rightarrow>
          (\<lparr> success = True,
             message = ''Pulled '' @ show_nat n @ '' commit'' @ plural n
                         @ '' and restored your uncommitted changes'',
             hadConflicts = None, autoStashed = Some True \<rparr>, t1)
      | (Inl stashError, t1) \<Rightarrow>
          if str_includes (error_message stashError) ''conflict''
             \<or> str_includes (error_message stashError) ''CONFLICT''
          then
            (\<lparr> success = True,
               message = ''Pulled successfully, but restoring your changes caused conflicts. Please resolve them.'',
               hadConflicts = Some True, autoStashed = Some True \<rparr>, t1)
          else
            (\<lparr> success = True,
               message = ''Pulled successfully. Your changes are in the stash (run git stash pop to restore).'',
               hadConflicts = None, autoStashed = Some True \<rparr>, t1))"

text \<open>
  The body of the outer \<^verbatim>\<open>try\<close>. It ends by a \<^verbatim>\<open>return\<close> (\<open>Inr\<close>) or by a command that
  throws (\<open>Inl\<close>); the second component is the variable \<^verbatim>\<open>didStash\<close> at that moment.
\<close>

definition pull_try :: "SimpleGit \<Rightarrow> git_cmd list \<Rightarrow> (error + PullResult) \<times> bool \<times> git_cmd list" where
  "pull_try g t =
     (case call (branchLocal_r g) BranchLocal t of
        (Inl e, t1) \<Rightarrow> (Inl e, False, t1)
      | (Inr branches, t1) \<Rightarrow>
          if current branches = [] then
            (Inr \<lparr> success = False, message = ''Not on a branch (detached HEAD state)'',
                   hadConflicts = None, autoStashed = None \<rparr>, False, t1)
          else
            (case call (fetch_r g) (Fetch [''origin'', current branches]) t1 of
               (Inl e, t2) \<Rightarrow> (Inl e, False, t2)
             | (Inr _, t2) \<Rightarrow>
                 (case call (status_r g) Status t2 of
                    (Inl e, t3) \<Rightarrow> (Inl e, False, t3)
                  | (Inr statusBefore, t3) \<Rightarrow>
                      if behind statusBefore = 0 then
                        (Inr \<lparr> success = True, message = ''Already up to date'',
                               hadConflicts = None, autoStashed = None \<rparr>, False, t3)
                      else
                        (case (if hasUncommittedChanges statusBefore
                               then (case call (raw_r g) (Raw stash_push_args) t3 of
                                       (Inl e, t4) \<Rightarrow> (Inl e, t4)
                                     | (Inr _, t4) \<Rightarrow> (Inr True, t4))
                               else (Inr False, t3)) of
                           (Inl e, t4) \<Rightarrow> (Inl e, False, t4)
                         | (Inr didStash, t4) \<Rightarrow>
                             (case call (pull_r g)
                                     (Pull ''origin'' (current branches) [''--rebase'']) t4 of
                                (Inl e, t5) \<Rightarrow> (Inl e, didStash, t5)
                              | (Inr _, t5) \<Rightarrow>
                                  if didStash then
                                    (case restore_stash g (behind statusBefore) t5 of
                                       (res, t6) \<Rightarrow> (Inr res, True, t6))
                                  else
                                    (Inr \<lparr> success = True,
                                           message = ''Pulled '' @ show_nat (behind statusBefore)
                                             @ '' commit'' @ plural (behind statusBefore)
                                             @ '' from origin'',
                                           hadConflicts = None, autoStashed = None \<rparr>,
                                     False, t5))))))"

definition is_conflict_message :: "string \<Rightarrow> bool" where
  "is_conflict_message errorMessage =
     (str_includes errorMessage ''conflict'' \<or>
      str_includes errorMessage ''CONFLICT'' \<or>
      str_includes errorMessage ''Merge conflict'' \<or>
      str_includes errorMessage ''could not apply'')"

definition is_no_tracking_message :: "string \<Rightarrow> bool" where
  "is_no_tracking_message errorMessage =
     (str_includes errorMessage ''no tracking'' \<or>
      str_includes errorMessage ''doesn't track'')"

text \<open>The outer \<^verbatim>\<open>catch\<close>: both recovery commands run in a \<^verbatim>\<open>try\<close> with an empty
  \<^verbatim>\<open>catch\<close>, so their outcome is dropped.\<close>

definition pull_catch :: "SimpleGit \<Rightarrow> error \<Rightarrow> bool \<Rightarrow> git_cmd list \<Rightarrow> PullResult \<times> git_cmd list" where
  "pull_catch g err didStash t =
     (let errorMessage = error_message err;
          t1 = (if didStash then snd (call (raw_r g) (Raw [''stash'', ''pop'']) t) else t)
      in if is_conflict_message errorMessage then
           (\<lparr> success = False,
              message = ''Pull failed due to conflicts with incoming changes. Please resolve manually.'',
              hadConflicts = Some True, autoStashed = None \<rparr>,
            snd (call (rebase_r g) (Rebase [''--abort'']) t1))
         else if is_no_tracking_message errorMessage then
           (\<lparr> success = True,
              message = ''No remote tracking branch (will be created on push)'',
              hadConflicts = None, autoStashed = None \<rparr>, t1)
         else
           (\<lparr> success = False, message = errorMessage,
              hadConflicts = None, autoStashed = None \<rparr>, t1))"

text \<open>\<^verbatim>\<open>pullCurrentBranch\<close>, given the global \<^verbatim>\<open>git\<close> (\<open>None\<close> is \<^verbatim>\<open>null\<close>).\<close>

definition pullCurrentBranch :: "SimpleGit option \<Rightarrow> git_cmd list
    \<Rightarrow> (error + PullResult) \<times> git_cmd list" where
  "pullCurrentBranch g_opt t =
     (case g_opt of
        None \<Rightarrow> (Inl (Error ''No repository selected''), t)
      | Some g \<Rightarrow>
          (case pull_try g t of
             (Inr res, _, t1) \<Rightarrow> (Inr res, t1)
           | (Inl err, didStash, t1) \<Rightarrow>
               (case pull_catch g err didStash t1 of (res, t2) \<Rightarrow> (Inr res, t2))))"

definition is_stash_cmd :: "git_cmd \<Rightarrow> bool" where
  "is_stash_cmd c = (case c of Raw (a # _) \<Rightarrow> a = ''stash'' | _ \<Rightarrow> False)"

definition is_pull_cmd :: "git_cmd \<Rightarrow> bool" where
  "is_pull_cmd c = (case c of Pull _ _ _ \<Rightarrow> True | _ \<Rightarrow> False)"


definition is_commit_cmd :: "git_cmd \<Rightarrow> bool" where
  "is_commit_cmd c = (case c of Commit _ \<Rightarrow> True | _ \<Rightarrow> False)"

section \<open>git-service.ts: commitChanges\<close>

datatype CommitResult = Behind nat | Committed string | Failed string

text \<open>
  Modelled from the spec: \<^verbatim>\<open>CommitService.commitChanges\<close> lives in the commit service,
  which is not among the sources. After the spec's algorithm: fetch the remote, read the
  behind-count; if it is positive and \<open>force\<close> is false, return the "behind" result with
  the count and do not commit; otherwise commit the staged content with the message and
  the optional description, and report the new commit or the failure's message. A git
  command that fails becomes a failure result.
\<close>

definition CommitService_commitChanges ::
    "RepositoryContext \<Rightarrow> string \<Rightarrow> string option \<Rightarrow> bool \<Rightarrow> git_cmd list
      \<Rightarrow> CommitResult \<times> git_cmd list" where
  "CommitService_commitChanges ctx msg description force t =
     (case call (fetch_r (git ctx)) (Fetch [''origin'']) t of
        (Inl e, t1) \<Rightarrow> (Failed (error_message e), t1)
      | (Inr _, t1) \<Rightarrow>
          (case call (status_r (git ctx)) Status t1 of
             (Inl e, t2) \<Rightarrow> (Failed (error_message e), t2)
           | (Inr st, t2) \<Rightarrow>
               if behind st > 0 \<and> \<not> force then (Behind (behind st), t2)
               else
                 (case call (commit_r (git ctx))
                         (Commit (msg # (case description of None \<Rightarrow> [] | Some d \<Rightarrow> [d]))) t2 of
                    (Inl e, t3) \<Rightarrow> (Failed (error_message e), t3)
                  | (Inr h, t3) \<Rightarrow> (Committed h, t3))))"

text \<open>\<^verbatim>\<open>commitChanges(message, description?, force = false)\<close> of git-service.ts, given the
  manager's active context; an omitted \<open>force\<close> is \<open>None\<close>.\<close>

definition commitChanges ::
    "RepositoryContext option \<Rightarrow> string \<Rightarrow> string option \<Rightarrow> bool option \<Rightarrow> git_cmd list
      \<Rightarrow> (error + CommitResult) \<times> git_cmd list" where
  "commitChanges active msg description force t =
     (case requireContext active of
        Inl e \<Rightarrow> (Inl e, t)
      | Inr ctx \<Rightarrow>
          (case CommitService_commitChanges ctx msg description
                  (case force of None \<Rightarrow> False | Some f \<Rightarrow> f) t of
             (res, t1) \<Rightarrow> (Inr res, t1)))"

section \<open>repo-handler.ts: the select-repo handler\<close>

record OpenDialogReturnValue =
  canceled :: bool
  filePaths :: "string list"

text \<open>
  The handler, given what the dialog returned. \<open>manager_open\<close> stands for
  \<^verbatim>\<open>manager.open\<close> of the RepositoryManager, which is not among the sources: it may change
  the whole state (it drives the legacy sync callback) and resolves to a context or throws.
  \<open>setRepoPath\<close> and \<open>saveLastRepoPath\<close> are assignments and do not throw.
\<close>

definition select_repo ::
    "(string \<Rightarrow> SimpleGit) \<Rightarrow> (string \<Rightarrow> 'm AppState \<Rightarrow> (error + RepositoryContext) \<times> 'm AppState)
      \<Rightarrow> OpenDialogReturnValue \<Rightarrow> 'm AppState \<Rightarrow> (error + string option) \<times> 'm AppState" where
  "select_repo simpleGit manager_open result s =
     (if canceled result \<or> length (filePaths result) = 0 then (Inr None, s)
      else
        (case filePaths result of
           [] \<Rightarrow> (Inr None, s)
         | selectedPath # _ \<Rightarrow>
             (case manager_open selectedPath s of
                (Inr ctx, s1) \<Rightarrow>
                  (Inr (Some (path ctx)),
                   saveLastRepoPath (path ctx) (setRepoPath simpleGit (path ctx) s1))
              | (Inl err, s1) \<Rightarrow>
                  (Inr (Some selectedPath),
                   saveLastRepoPath selectedPath (setRepoPath simpleGit selectedPath s1)))))"

section \<open>Traces and sample handles\<close>

text \<open>The commands an operation issued: what it appended to the trace it started from.\<close>

definition issued :: "git_cmd list \<Rightarrow> git_cmd list \<Rightarrow> git_cmd list" where
  "issued t t' = drop (length t) t'"

text \<open>A repository that answers every command: two commits behind \<open>origin\<close>, one modified
  file, on branch \<open>feature\<close>. The examples below vary single answers of it.\<close>

definition sample_status :: StatusResult where
  "sample_status = \<lparr> behind = 2, modified = [''README.md''], not_added = [], created = [],
                      deleted = [], staged = [] \<rparr>"

definition sample_git :: SimpleGit where
  "sample_git =
     \<lparr> checkIsRepo_r = (\<lambda>_. Inr True),
       revparse_r = (\<lambda>_. Inr (''/home/dev/ledger'' @ [CHR 0x0A])),
       getRemotes_r = (\<lambda>_. Inr [\<lparr> remote_name = ''origin'',
                                    refs = \<lparr> fetch = ''https://github.com/x/y.git'',
                                             push = ''https://github.com/x/y.git'' \<rparr> \<rparr>]),
       remote_r = (\<lambda>_. Inr (Some (''* remote origin'' @ [CHR 0x0A] @ ''  HEAD branch: main''
                                    @ [CHR 0x0A] @ ''  Remote branch:''))),
       branchLocal_r = (\<lambda>_. Inr \<lparr> current = ''feature'', all_names = [''feature'', ''master''] \<rparr>),
       fetch_r = (\<lambda>_. Inr ()),
       status_r = (\<lambda>_. Inr sample_status),
       raw_r = (\<lambda>_. Inr []),
       pull_r = (\<lambda>_. Inr ()),
       rebase_r = (\<lambda>_. Inr []),
       commit_r = (\<lambda>_. Inr ''1a2b3c4'') \<rparr>"

definition sample_ctx :: RepositoryContext where
  "sample_ctx =
     \<lparr> ctx_id = ''c0ffee'', path = ''/home/dev/ledger'', ctx_name = ''ledger'',
       git = sample_git,
       metadata = \<lparr> name = ''ledger'', defaultBranch = ''main'',
                    remoteUrl = Some ''https://github.com/x/y.git'', provider = Github,
                    lastFetched = None \<rparr>,
       lastAccessed = 0 \<rparr>"

definition sample_state :: "unit AppState" where
  "sample_state = \<lparr> legacy_git = None, legacy_repoPath = None, lastRepoPath = None,
                     manager = () \<rparr>"

section \<open>Strings: what the helpers compute\<close>

lemma startsWith_prefix: "startsWith s p \<longleftrightarrow> prefix p s"
  by (induction s p rule: startsWith.induct) auto

lemma str_includes_sublist: "str_includes s sub \<longleftrightarrow> sublist sub s"
  by (induction s) (auto simp: startsWith_prefix sublist_Cons_right)



lemma sublist_shorter: "sublist (xs @ ys) s \<Longrightarrow> sublist xs s"
  unfolding sublist_def by (metis append.assoc)

lemma gitlab_com: "sublist ''gitlab.com'' s \<Longrightarrow> sublist ''gitlab'' s"
  using sublist_shorter [of "''gitlab''" "''.com''" s] by simp

lemma bitbucket_org: "sublist ''bitbucket.org'' s \<Longrightarrow> sublist ''bitbucket'' s"
  using sublist_shorter [of "''bitbucket''" "''.org''" s] by simp


section \<open>Provider detection\<close>

text \<open>
  C9 (as amended). \<open>detectProvider\<close> lowers the case of the whole remote URL (not only
  its host) and answers by the first test that holds, in this order: the URL contains
  \<open>github.com\<close>, then \<open>gitlab\<close>, then \<open>bitbucket\<close>, then \<open>azure.com\<close> or
  \<open>visualstudio.com\<close>; \<open>local\<close> is the answer for \<open>null\<close> and for a URL that passes no
  test. A URL may pass several tests, and then the earliest one decides. The spec's
  examples hold: \<open>https://github.com/x/y.git\<close> is \<open>github\<close>, \<open>git@gitlab.com:x/y.git\<close> is
  \<open>gitlab\<close>, \<open>null\<close> is \<open>local\<close>. Containment is \<open>sublist\<close>, the contiguous-sublist relation
  of the library.
\<close>

theorem detectProvider_first_match:
  "detectProvider None = Local \<and>
   (detectProvider (Some u) = Github \<longleftrightarrow> sublist ''github.com'' (toLowerCase u)) \<and>
   (detectProvider (Some u) = Gitlab \<longleftrightarrow>
      \<not> sublist ''github.com'' (toLowerCase u) \<and> sublist ''gitlab'' (toLowerCase u)) \<and>
   (detectProvider (Some u) = Bitbucket \<longleftrightarrow>
      \<not> sublist ''github.com'' (toLowerCase u) \<and> \<not> sublist ''gitlab'' (toLowerCase u) \<and>
      sublist ''bitbucket'' (toLowerCase u)) \<and>
   (detectProvider (Some u) = Azure \<longleftrightarrow>
      \<not> sublist ''github.com'' (toLowerCase u) \<and> \<not> sublist ''gitlab'' (toLowerCase u) \<and>
      \<not> sublist ''bitbucket'' (toLowerCase u) \<and>
      (sublist ''azure.com'' (toLowerCase u) \<or> sublist ''visualstudio.com'' (toLowerCase u))) \<and>
   (detectProvider (Some u) = Local \<longleftrightarrow>
      \<not> sublist ''github.com'' (toLowerCase u) \<and> \<not> sublist ''gitlab'' (toLowerCase u) \<and>
      \<not> sublist ''bitbucket'' (toLowerCase u) \<and>
      \<not> sublist ''azure.com'' (toLowerCase u) \<and> \<not> sublist ''visualstudio.com'' (toLowerCase u)) \<and>
   detectProvider (Some ''https://github.com/x/y.git'') = Github \<and>
   detectProvider (Some ''git@gitlab.com:x/y.git'') = Gitlab"
proof -
  have ex1: "detectProvider (Some ''https://github.com/x/y.git'') = Github"
    by (simp add: detectProvider_def toLowerCase_def toLowerChar_def)
  have ex2: "detectProvider (Some ''git@gitlab.com:x/y.git'') = Gitlab"
    by (simp add: detectProvider_def toLowerCase_def toLowerChar_def)
  show ?thesis
    using ex1 ex2 gitlab_com [of "toLowerCase u"] bitbucket_org [of "toLowerCase u"]
    by (auto simp: detectProvider_def str_includes_sublist Let_def toLowerCase_def)
qed

text \<open>The theorem at two further URLs: an Azure DevOps remote in upper case and a
  Bitbucket remote.\<close>

theorem detectProvider_first_match_witness:
  "detectProvider (Some ''https://DEV.AZURE.COM/org/_git/repo'') = Azure \<and>
   detectProvider (Some ''git@bitbucket.org:x/y.git'') = Bitbucket"
proof -
  have l1: "toLowerCase ''https://DEV.AZURE.COM/org/_git/repo''
              = ''https://dev.azure.com/org/_git/repo''"
    by (simp add: toLowerCase_def toLowerChar_def)
  have l2: "toLowerCase ''git@bitbucket.org:x/y.git'' = ''git@bitbucket.org:x/y.git''"
    by (simp add: toLowerCase_def toLowerChar_def)
  have h1: "\<not> sublist ''github.com'' (toLowerCase ''https://DEV.AZURE.COM/org/_git/repo'') \<and>
            \<not> sublist ''gitlab'' (toLowerCase ''https://DEV.AZURE.COM/org/_git/repo'') \<and>
            \<not> sublist ''bitbucket'' (toLowerCase ''https://DEV.AZURE.COM/org/_git/repo'') \<and>
            sublist ''azure.com'' (toLowerCase ''https://DEV.AZURE.COM/org/_git/repo'')"
    unfolding l1 by (simp add: str_includes_sublist [symmetric])
  have h2: "\<not> sublist ''github.com'' (toLowerCase ''git@bitbucket.org:x/y.git'') \<and>
            \<not> sublist ''gitlab'' (toLowerCase ''git@bitbucket.org:x/y.git'') \<and>
            sublist ''bitbucket'' (toLowerCase ''git@bitbucket.org:x/y.git'')"
    unfolding l2 by (simp add: str_includes_sublist [symmetric])
  from h1 detectProvider_first_match [of "''https://DEV.AZURE.COM/org/_git/repo''"]
  have "detectProvider (Some ''https://DEV.AZURE.COM/org/_git/repo'') = Azure" by blast
  moreover from h2 detectProvider_first_match [of "''git@bitbucket.org:x/y.git''"]
  have "detectProvider (Some ''git@bitbucket.org:x/y.git'') = Bitbucket" by blast
  ultimately show ?thesis by simp
qed

text \<open>
  C9 as stated fails: the host \<open>gitlab.github.com\<close> contains both \<open>gitlab\<close> and
  \<open>github.com\<close>, so this URL falls into two categories, and it is classified as
  \<open>github\<close>, not as \<open>gitlab\<close>.
\<close>

theorem detectProvider_overlap_counterexample:
  "str_includes ''https://gitlab.github.com/x/y.git'' ''gitlab'' \<and>
   str_includes ''https://gitlab.github.com/x/y.git'' ''github.com'' \<and>
   detectProvider (Some ''https://gitlab.github.com/x/y.git'') = Github \<and>
   detectProvider (Some ''https://gitlab.github.com/x/y.git'') \<noteq> Gitlab"
  by (simp add: detectProvider_def toLowerCase_def toLowerChar_def)

section \<open>pullCurrentBranch\<close>

subsection \<open>The stages of the try block\<close>

lemma pull_try_clean:
  assumes "branchLocal_r g (t @ [BranchLocal]) = Inr bs"
    and "current bs \<noteq> []"
    and "fetch_r g (t @ [BranchLocal, Fetch [''origin'', current bs]]) = Inr ()"
    and "status_r g (t @ [BranchLocal, Fetch [''origin'', current bs], Status]) = Inr st"
    and "behind st > 0"
    and "\<not> hasUncommittedChanges st"
  shows "pull_try g t =
    (case pull_r g (t @ [BranchLocal, Fetch [''origin'', current bs], Status,
                         Pull ''origin'' (current bs) [''--rebase'']]) of
       Inl e \<Rightarrow> (Inl e, False, t @ [BranchLocal, Fetch [''origin'', current bs], Status,
                         Pull ''origin'' (current bs) [''--rebase'']])
     | Inr _ \<Rightarrow> (Inr \<lparr> success = True,
                       message = ''Pulled '' @ show_nat (behind st) @ '' commit''
                          @ plural (behind st) @ '' from origin'',
                       hadConflicts = None, autoStashed = None \<rparr>, False,
                 t @ [BranchLocal, Fetch [''origin'', current bs], Status,
                         Pull ''origin'' (current bs) [''--rebase'']]))"
  using assms by (simp add: pull_try_def call_def split: sum.splits)

lemma pull_try_stash_failed:
  assumes "branchLocal_r g (t @ [BranchLocal]) = Inr bs"
    and "current bs \<noteq> []"
    and "fetch_r g (t @ [BranchLocal, Fetch [''origin'', current bs]]) = Inr ()"
    and "status_r g (t @ [BranchLocal, Fetch [''origin'', current bs], Status]) = Inr st"
    and "behind st > 0"
    and "hasUncommittedChanges st"
    and "raw_r g (t @ [BranchLocal, Fetch [''origin'', current bs], Status,
                       Raw stash_push_args]) = Inl e"
  shows "pull_try g t =
    (Inl e, False, t @ [BranchLocal, Fetch [''origin'', current bs], Status, Raw stash_push_args])"
  using assms by (simp add: pull_try_def call_def)

lemma pull_try_stashed:
  assumes "branchLocal_r g (t @ [BranchLocal]) = Inr bs"
    and "current bs \<noteq> []"
    and "fetch_r g (t @ [BranchLocal, Fetch [''origin'', current bs]]) = Inr ()"
    and "status_r g (t @ [BranchLocal, Fetch [''origin'', current bs], Status]) = Inr st"
    and "behind st > 0"
    and "hasUncommittedChanges st"
    and "raw_r g (t @ [BranchLocal, Fetch [''origin'', current bs], Status,
                       Raw stash_push_args]) = Inr out"
  shows "pull_try g t =
    (case pull_r g (t @ [BranchLocal, Fetch [''origin'', current bs], Status,
                         Raw stash_push_args, Pull ''origin'' (current bs) [''--rebase'']]) of
       Inl e \<Rightarrow> (Inl e, True, t @ [BranchLocal, Fetch [''origin'', current bs], Status,
                         Raw stash_push_args, Pull ''origin'' (current bs) [''--rebase'']])
     | Inr _ \<Rightarrow> (Inr (fst (restore_stash g (behind st)
                        (t @ [BranchLocal, Fetch [''origin'', current bs], Status,
                         Raw stash_push_args, Pull ''origin'' (current bs) [''--rebase'']]))),
                 True,
                 t @ [BranchLocal, Fetch [''origin'', current bs], Status,
                         Raw stash_push_args, Pull ''origin'' (current bs) [''--rebase''],
                         Raw [''stash'', ''pop'']]))"
  using assms
  by (simp add: pull_try_def call_def restore_stash_def split: sum.splits)

lemma snd_pull_catch:
  "snd (pull_catch g e d t) =
     t @ (if d then [Raw [''stash'', ''pop'']] else [])
       @ (if is_conflict_message (error_message e) then [Rebase [''--abort'']] else [])"
  by (simp add: pull_catch_def call_def Let_def)

lemma fst_pull_catch:
  "fst (pull_catch g e d t) =
     (if is_conflict_message (error_message e) then
        \<lparr> success = False,
          message = ''Pull failed due to conflicts with incoming changes. Please resolve manually.'',
          hadConflicts = Some True, autoStashed = None \<rparr>
      else if is_no_tracking_message (error_message e) then
        \<lparr> success = True, message = ''No remote tracking branch (will be created on push)'',
          hadConflicts = None, autoStashed = None \<rparr>
      else \<lparr> success = False, message = error_message e,
             hadConflicts = None, autoStashed = None \<rparr>)"
  by (simp add: pull_catch_def Let_def)

lemma pullCurrentBranch_Some:
  "pullCurrentBranch (Some g) t =
     (case pull_try g t of
        (Inr res, d, t1) \<Rightarrow> (Inr res, t1)
      | (Inl err, d, t1) \<Rightarrow> (Inr (fst (pull_catch g err d t1)), snd (pull_catch g err d t1)))"
  by (simp add: pullCurrentBranch_def split: prod.splits sum.splits)

lemma dirty_iff:
  "hasUncommittedChanges st \<longleftrightarrow>
     (modified st \<noteq> [] \<or> not_added st \<noteq> [] \<or> created st \<noteq> [] \<or> deleted st \<noteq> []
       \<or> staged st \<noteq> [])"
  by (simp add: hasUncommittedChanges_def)

subsection \<open>No current branch\<close>



subsection \<open>Nothing to pull\<close>

text \<open>
  C2. When the fetch has succeeded and the status then reports a behind-count of 0,
  \<open>pullCurrentBranch\<close> ends with a success result whose message is "Already up to date",
  having issued \<^verbatim>\<open>branchLocal\<close>, \<^verbatim>\<open>fetch\<close> and \<^verbatim>\<open>status\<close> only: no stash command and
  no pull command.
\<close>

theorem pull_up_to_date:
  assumes "branchLocal_r g (t @ [BranchLocal]) = Inr bs"
    and "current bs \<noteq> []"
    and "fetch_r g (t @ [BranchLocal, Fetch [''origin'', current bs]]) = Inr ()"
    and "status_r g (t @ [BranchLocal, Fetch [''origin'', current bs], Status]) = Inr st"
    and "behind st = 0"
  shows "pullCurrentBranch (Some g) t =
           (Inr \<lparr> success = True, message = ''Already up to date'',
                  hadConflicts = None, autoStashed = None \<rparr>,
            t @ [BranchLocal, Fetch [''origin'', current bs], Status])
         \<and> \<not> list_ex is_stash_cmd (issued t (snd (pullCurrentBranch (Some g) t)))
         \<and> \<not> list_ex is_pull_cmd (issued t (snd (pullCurrentBranch (Some g) t)))"
  using assms
  by (simp add: pullCurrentBranch_def pull_try_def call_def issued_def
      is_stash_cmd_def is_pull_cmd_def)

theorem pull_up_to_date_witness:
  "pullCurrentBranch
      (Some (sample_git\<lparr> status_r := \<lambda>_. Inr (sample_status\<lparr> behind := 0 \<rparr>) \<rparr>)) [] =
     (Inr \<lparr> success = True, message = ''Already up to date'',
            hadConflicts = None, autoStashed = None \<rparr>,
      [BranchLocal, Fetch [''origin'', ''feature''], Status])"
proof -
  let ?g = "sample_git\<lparr> status_r := \<lambda>_. Inr (sample_status\<lparr> behind := 0 \<rparr>) \<rparr>"
  let ?bs = "\<lparr> current = ''feature'', all_names = [''feature'', ''master''] \<rparr>"
  have h1: "branchLocal_r ?g ([] @ [BranchLocal]) = Inr ?bs"
    by (simp add: sample_git_def)
  have h2: "current ?bs \<noteq> []" by simp
  have h3: "fetch_r ?g ([] @ [BranchLocal, Fetch [''origin'', current ?bs]]) = Inr ()"
    by (simp add: sample_git_def)
  have h4: "status_r ?g ([] @ [BranchLocal, Fetch [''origin'', current ?bs], Status])
               = Inr (sample_status\<lparr> behind := 0 \<rparr>)"
    by simp
  have h5: "behind (sample_status\<lparr> behind := 0 \<rparr>) = 0" by simp
  show ?thesis using pull_up_to_date [OF h1 h2 h3 h4 h5] by simp
qed

subsection \<open>Stash before the pull\<close>

text \<open>
  C1. Let the local branch be behind its remote (the fetch succeeded and the status
  reports a positive behind-count). If the working tree is dirty, that is if one of the
  lists \<open>modified\<close>, \<open>not_added\<close>, \<open>created\<close>, \<open>deleted\<close>, \<open>staged\<close> of the status is
  not empty, the next command is \<^verbatim>\<open>stash push --include-untracked -m
  ledger-auto-stash-for-pull\<close>; when that command succeeds, \<open>didStash\<close> is true and the
  command after it is the pull of the current branch from \<open>origin\<close> with \<open>--rebase\<close>. If
  the tree is clean, the pull with \<open>--rebase\<close> follows the status directly, \<open>didStash\<close>
  stays false and no stash command is issued at all.
\<close>

theorem pull_stash_then_rebase:
  assumes "branchLocal_r g (t @ [BranchLocal]) = Inr bs"
    and "current bs \<noteq> []"
    and "fetch_r g (t @ [BranchLocal, Fetch [''origin'', current bs]]) = Inr ()"
    and "status_r g (t @ [BranchLocal, Fetch [''origin'', current bs], Status]) = Inr st"
    and "behind st > 0"
  shows "((modified st \<noteq> [] \<or> not_added st \<noteq> [] \<or> created st \<noteq> [] \<or> deleted st \<noteq> []
            \<or> staged st \<noteq> []) \<longrightarrow>
           (\<exists>rest. issued t (snd (pullCurrentBranch (Some g) t)) =
               [BranchLocal, Fetch [''origin'', current bs], Status,
                Raw [''stash'', ''push'', ''--include-untracked'', ''-m'',
                     ''ledger-auto-stash-for-pull'']] @ rest
             \<and> ((\<exists>out. raw_r g (t @ [BranchLocal, Fetch [''origin'', current bs], Status,
                     Raw [''stash'', ''push'', ''--include-untracked'', ''-m'',
                          ''ledger-auto-stash-for-pull'']]) = Inr out) \<longrightarrow>
                  fst (snd (pull_try g t)) = True
                  \<and> (\<exists>rest'. rest = Pull ''origin'' (current bs) [''--rebase''] # rest'))))
       \<and> ((modified st = [] \<and> not_added st = [] \<and> created st = [] \<and> deleted st = []
            \<and> staged st = []) \<longrightarrow>
           (\<exists>rest. issued t (snd (pullCurrentBranch (Some g) t)) =
               [BranchLocal, Fetch [''origin'', current bs], Status,
                Pull ''origin'' (current bs) [''--rebase'']] @ rest)
            \<and> fst (snd (pull_try g t)) = False
            \<and> \<not> list_ex is_stash_cmd (issued t (snd (pullCurrentBranch (Some g) t))))"
proof (intro conjI impI)
  assume d: "modified st \<noteq> [] \<or> not_added st \<noteq> [] \<or> created st \<noteq> [] \<or> deleted st \<noteq> []
            \<or> staged st \<noteq> []"
  then have dirty: "hasUncommittedChanges st" by (simp add: dirty_iff)
  show "\<exists>rest. issued t (snd (pullCurrentBranch (Some g) t)) =
               [BranchLocal, Fetch [''origin'', current bs], Status,
                Raw [''stash'', ''push'', ''--include-untracked'', ''-m'',
                     ''ledger-auto-stash-for-pull'']] @ rest
             \<and> ((\<exists>out. raw_r g (t @ [BranchLocal, Fetch [''origin'', current bs], Status,
                     Raw [''stash'', ''push'', ''--include-untracked'', ''-m'',
                          ''ledger-auto-stash-for-pull'']]) = Inr out) \<longrightarrow>
                  fst (snd (pull_try g t)) = True
                  \<and> (\<exists>rest'. rest = Pull ''origin'' (current bs) [''--rebase''] # rest'))"
  proof (cases "raw_r g (t @ [BranchLocal, Fetch [''origin'', current bs], Status,
                       Raw stash_push_args])")
    case (Inl e)
    from pull_try_stash_failed [OF assms dirty Inl] Inl show ?thesis
      by (simp add: pullCurrentBranch_Some snd_pull_catch issued_def stash_push_args_def)
  next
    case (Inr out)
    from pull_try_stashed [OF assms dirty Inr] show ?thesis
      by (simp add: pullCurrentBranch_Some snd_pull_catch issued_def stash_push_args_def
          split: sum.splits)
  qed
next
  assume c: "modified st = [] \<and> not_added st = [] \<and> created st = [] \<and> deleted st = []
            \<and> staged st = []"
  then have clean: "\<not> hasUncommittedChanges st" by (simp add: dirty_iff)
  note eq = pull_try_clean [OF assms clean]
  show "\<exists>rest. issued t (snd (pullCurrentBranch (Some g) t)) =
               [BranchLocal, Fetch [''origin'', current bs], Status,
                Pull ''origin'' (current bs) [''--rebase'']] @ rest"
    using eq by (simp add: pullCurrentBranch_Some snd_pull_catch issued_def split: sum.splits)
  show "fst (snd (pull_try g t)) = False"
    using eq by (simp split: sum.splits)
  show "\<not> list_ex is_stash_cmd (issued t (snd (pullCurrentBranch (Some g) t)))"
    using eq by (simp add: pullCurrentBranch_Some snd_pull_catch issued_def is_stash_cmd_def
        split: sum.splits)
qed


theorem pull_stash_then_rebase_witness:
  "issued [] (snd (pullCurrentBranch (Some sample_git) [])) =
     [BranchLocal, Fetch [''origin'', ''feature''], Status,
      Raw [''stash'', ''push'', ''--include-untracked'', ''-m'', ''ledger-auto-stash-for-pull''],
      Pull ''origin'' ''feature'' [''--rebase''], Raw [''stash'', ''pop'']]
   \<and> fst (snd (pull_try sample_git [])) = True
   \<and> issued [] (snd (pullCurrentBranch
        (Some (sample_git\<lparr> status_r := \<lambda>_. Inr (sample_status\<lparr> modified := [] \<rparr>) \<rparr>)) [])) =
     [BranchLocal, Fetch [''origin'', ''feature''], Status,
      Pull ''origin'' ''feature'' [''--rebase'']]"
proof -
  let ?bs = "\<lparr> current = ''feature'', all_names = [''feature'', ''master''] \<rparr>"
  let ?c = "sample_git\<lparr> status_r := \<lambda>_. Inr (sample_status\<lparr> modified := [] \<rparr>) \<rparr>"
  have h1: "branchLocal_r sample_git ([] @ [BranchLocal]) = Inr ?bs"
    by (simp add: sample_git_def)
  have h2: "current ?bs \<noteq> []" by simp
  have h3: "fetch_r sample_git ([] @ [BranchLocal, Fetch [''origin'', current ?bs]]) = Inr ()"
    by (simp add: sample_git_def)
  have h4: "status_r sample_git ([] @ [BranchLocal, Fetch [''origin'', current ?bs], Status])
               = Inr sample_status"
    by (simp add: sample_git_def)
  have h5: "behind sample_status > 0" by (simp add: sample_status_def)
  have c1: "branchLocal_r ?c ([] @ [BranchLocal]) = Inr ?bs"
    by (simp add: sample_git_def)
  have c3: "fetch_r ?c ([] @ [BranchLocal, Fetch [''origin'', current ?bs]]) = Inr ()"
    by (simp add: sample_git_def)
  have c4: "status_r ?c ([] @ [BranchLocal, Fetch [''origin'', current ?bs], Status])
               = Inr (sample_status\<lparr> modified := [] \<rparr>)"
    by simp
  have c5: "behind (sample_status\<lparr> modified := [] \<rparr>) > 0" by (simp add: sample_status_def)
  have d: "modified sample_status \<noteq> []" by (simp add: sample_status_def)
  have s: "raw_r sample_git ([] @ [BranchLocal, Fetch [''origin'', current ?bs], Status,
                     Raw [''stash'', ''push'', ''--include-untracked'', ''-m'',
                          ''ledger-auto-stash-for-pull'']]) = Inr []"
    by (simp add: sample_git_def)
  have p: "snd (pullCurrentBranch (Some sample_git) []) =
     [BranchLocal, Fetch [''origin'', ''feature''], Status,
      Raw [''stash'', ''push'', ''--include-untracked'', ''-m'', ''ledger-auto-stash-for-pull''],
      Pull ''origin'' ''feature'' [''--rebase''], Raw [''stash'', ''pop'']]"
    by (simp add: pullCurrentBranch_def pull_try_def call_def restore_stash_def
        hasUncommittedChanges_def stash_push_args_def sample_git_def sample_status_def)
  have q: "modified (sample_status\<lparr> modified := [] \<rparr>) = []
      \<and> not_added (sample_status\<lparr> modified := [] \<rparr>) = []
      \<and> created (sample_status\<lparr> modified := [] \<rparr>) = []
      \<and> deleted (sample_status\<lparr> modified := [] \<rparr>) = []
      \<and> staged (sample_status\<lparr> modified := [] \<rparr>) = []"
    by (simp add: sample_status_def)
  have r: "snd (pullCurrentBranch (Some ?c) []) =
     [BranchLocal, Fetch [''origin'', ''feature''], Status,
      Pull ''origin'' ''feature'' [''--rebase'']]"
    by (simp add: pullCurrentBranch_def pull_try_def call_def
        hasUncommittedChanges_def sample_git_def sample_status_def)
  from pull_stash_then_rebase [OF h1 h2 h3 h4 h5] d s
  have "fst (snd (pull_try sample_git [])) = True" by blast
  moreover from pull_stash_then_rebase [OF c1 h2 c3 c4 c5] q
  have "\<not> list_ex is_stash_cmd (issued [] (snd (pullCurrentBranch (Some ?c) [])))" by blast
  ultimately show ?thesis using p r by (simp add: issued_def)
qed

subsection \<open>The stash pop fails after a successful pull\<close>

text \<open>
  C3. Let a stash have been created and the pull have succeeded, and let the stash pop
  that follows fail with message \<open>m\<close>. If \<open>m\<close> contains \<open>conflict\<close> or \<open>CONFLICT\<close>, the
  result has \<open>success = true\<close> and \<open>hadConflicts = true\<close>. Otherwise the result has
  \<open>success = true\<close> and its message says that the changes are in the stash. In both
  cases the pop is the last command: it is issued once and not retried.
\<close>

theorem pull_pop_failure:
  assumes "branchLocal_r g (t @ [BranchLocal]) = Inr bs"
    and "current bs \<noteq> []"
    and "fetch_r g (t @ [BranchLocal, Fetch [''origin'', current bs]]) = Inr ()"
    and "status_r g (t @ [BranchLocal, Fetch [''origin'', current bs], Status]) = Inr st"
    and "behind st > 0"
    and "hasUncommittedChanges st"
    and "raw_r g (t @ [BranchLocal, Fetch [''origin'', current bs], Status,
                       Raw stash_push_args]) = Inr out"
    and "pull_r g (t @ [BranchLocal, Fetch [''origin'', current bs], Status,
                       Raw stash_push_args, Pull ''origin'' (current bs) [''--rebase'']]) = Inr ()"
    and "raw_r g (t @ [BranchLocal, Fetch [''origin'', current bs], Status,
                       Raw stash_push_args, Pull ''origin'' (current bs) [''--rebase''],
                       Raw [''stash'', ''pop'']]) = Inl (Error m)"
  shows "pullCurrentBranch (Some g) t =
           (Inr (if sublist ''conflict'' m \<or> sublist ''CONFLICT'' m
                 then \<lparr> success = True,
                        message = ''Pulled successfully, but restoring your changes caused conflicts. Please resolve them.'',
                        hadConflicts = Some True, autoStashed = Some True \<rparr>
                 else \<lparr> success = True,
                        message = ''Pulled successfully. Your changes are in the stash (run git stash pop to restore).'',
                        hadConflicts = None, autoStashed = Some True \<rparr>),
            t @ [BranchLocal, Fetch [''origin'', current bs], Status, Raw stash_push_args,
                 Pull ''origin'' (current bs) [''--rebase''], Raw [''stash'', ''pop'']])
         \<and> length (filter (\<lambda>c. c = Raw [''stash'', ''pop''])
                     (issued t (snd (pullCurrentBranch (Some g) t)))) = 1"
proof -
  have tried: "pull_try g t =
      (Inr (fst (restore_stash g (behind st)
                   (t @ [BranchLocal, Fetch [''origin'', current bs], Status,
                         Raw stash_push_args, Pull ''origin'' (current bs) [''--rebase'']]))),
       True,
       t @ [BranchLocal, Fetch [''origin'', current bs], Status, Raw stash_push_args,
            Pull ''origin'' (current bs) [''--rebase''], Raw [''stash'', ''pop'']])"
    using pull_try_stashed [OF assms(1-7)] assms(8) by simp
  have res: "fst (restore_stash g (behind st)
                   (t @ [BranchLocal, Fetch [''origin'', current bs], Status,
                         Raw stash_push_args, Pull ''origin'' (current bs) [''--rebase'']])) =
        (if sublist ''conflict'' m \<or> sublist ''CONFLICT'' m
         then \<lparr> success = True,
                message = ''Pulled successfully, but restoring your changes caused conflicts. Please resolve them.'',
                hadConflicts = Some True, autoStashed = Some True \<rparr>
         else \<lparr> success = True,
                message = ''Pulled successfully. Your changes are in the stash (run git stash pop to restore).'',
                hadConflicts = None, autoStashed = Some True \<rparr>)"
    using assms(9) by (simp add: restore_stash_def call_def str_includes_sublist)
  have tr: "snd (pullCurrentBranch (Some g) t) =
      t @ [BranchLocal, Fetch [''origin'', current bs], Status, Raw stash_push_args,
           Pull ''origin'' (current bs) [''--rebase''], Raw [''stash'', ''pop'']]"
    using tried by (simp add: pullCurrentBranch_Some)
  have once: "length (filter (\<lambda>c. c = Raw [''stash'', ''pop''])
                     (issued t (snd (pullCurrentBranch (Some g) t)))) = 1"
    unfolding tr by (simp add: issued_def stash_push_args_def)
  have "pullCurrentBranch (Some g) t =
      (Inr (fst (restore_stash g (behind st)
                   (t @ [BranchLocal, Fetch [''origin'', current bs], Status,
                         Raw stash_push_args, Pull ''origin'' (current bs) [''--rebase'']]))),
       t @ [BranchLocal, Fetch [''origin'', current bs], Status, Raw stash_push_args,
            Pull ''origin'' (current bs) [''--rebase''], Raw [''stash'', ''pop'']])"
    using tried by (simp add: pullCurrentBranch_Some)
  with res once show ?thesis by simp
qed

text \<open>The theorem on a handle whose stash pop reports a conflict, and on one whose pop
  fails for another reason.\<close>

theorem pull_pop_failure_witness:
  "fst (pullCurrentBranch (Some (sample_git\<lparr> raw_r := \<lambda>h. if last h = Raw [''stash'', ''pop'']
          then Inl (Error ''CONFLICT (content): Merge conflict in README.md'') else Inr [] \<rparr>)) [])
     = Inr \<lparr> success = True,
             message = ''Pulled successfully, but restoring your changes caused conflicts. Please resolve them.'',
             hadConflicts = Some True, autoStashed = Some True \<rparr>
   \<and> fst (pullCurrentBranch (Some (sample_git\<lparr> raw_r := \<lambda>h. if last h = Raw [''stash'', ''pop'']
          then Inl (Error ''error: unable to write new index file'') else Inr [] \<rparr>)) [])
     = Inr \<lparr> success = True,
             message = ''Pulled successfully. Your changes are in the stash (run git stash pop to restore).'',
             hadConflicts = None, autoStashed = Some True \<rparr>"
proof -
  let ?bs = "\<lparr> current = ''feature'', all_names = [''feature'', ''master''] \<rparr>"
  let ?m1 = "''CONFLICT (content): Merge conflict in README.md''"
  let ?m2 = "''error: unable to write new index file''"
  let ?g1 = "sample_git\<lparr> raw_r := \<lambda>h. if last h = Raw [''stash'', ''pop'']
          then Inl (Error ?m1) else Inr [] \<rparr>"
  let ?g2 = "sample_git\<lparr> raw_r := \<lambda>h. if last h = Raw [''stash'', ''pop'']
          then Inl (Error ?m2) else Inr [] \<rparr>"
  have h2: "current ?bs \<noteq> []" by simp
  have h5: "behind sample_status > 0" by (simp add: sample_status_def)
  have h6: "hasUncommittedChanges sample_status"
    by (simp add: sample_status_def hasUncommittedChanges_def)
  have a1: "branchLocal_r ?g1 ([] @ [BranchLocal]) = Inr ?bs" by (simp add: sample_git_def)
  have a3: "fetch_r ?g1 ([] @ [BranchLocal, Fetch [''origin'', current ?bs]]) = Inr ()"
    by (simp add: sample_git_def)
  have a4: "status_r ?g1 ([] @ [BranchLocal, Fetch [''origin'', current ?bs], Status])
              = Inr sample_status" by (simp add: sample_git_def)
  have a7: "raw_r ?g1 ([] @ [BranchLocal, Fetch [''origin'', current ?bs], Status,
                       Raw stash_push_args]) = Inr []"
    by (simp add: stash_push_args_def)
  have a8: "pull_r ?g1 ([] @ [BranchLocal, Fetch [''origin'', current ?bs], Status,
                       Raw stash_push_args, Pull ''origin'' (current ?bs) [''--rebase'']]) = Inr ()"
    by (simp add: sample_git_def)
  have a9: "raw_r ?g1 ([] @ [BranchLocal, Fetch [''origin'', current ?bs], Status,
                       Raw stash_push_args, Pull ''origin'' (current ?bs) [''--rebase''],
                       Raw [''stash'', ''pop'']]) = Inl (Error ?m1)"
    by simp
  have b1: "branchLocal_r ?g2 ([] @ [BranchLocal]) = Inr ?bs" by (simp add: sample_git_def)
  have b3: "fetch_r ?g2 ([] @ [BranchLocal, Fetch [''origin'', current ?bs]]) = Inr ()"
    by (simp add: sample_git_def)
  have b4: "status_r ?g2 ([] @ [BranchLocal, Fetch [''origin'', current ?bs], Status])
              = Inr sample_status" by (simp add: sample_git_def)
  have b7: "raw_r ?g2 ([] @ [BranchLocal, Fetch [''origin'', current ?bs], Status,
                       Raw stash_push_args]) = Inr []"
    by (simp add: stash_push_args_def)
  have b8: "pull_r ?g2 ([] @ [BranchLocal, Fetch [''origin'', current ?bs], Status,
                       Raw stash_push_args, Pull ''origin'' (current ?bs) [''--rebase'']]) = Inr ()"
    by (simp add: sample_git_def)
  have b9: "raw_r ?g2 ([] @ [BranchLocal, Fetch [''origin'', current ?bs], Status,
                       Raw stash_push_args, Pull ''origin'' (current ?bs) [''--rebase''],
                       Raw [''stash'', ''pop'']]) = Inl (Error ?m2)"
    by simp
  have k1: "sublist ''CONFLICT'' ?m1"
    by (simp add: str_includes_sublist [symmetric])
  have k2: "\<not> (sublist ''conflict'' ?m2 \<or> sublist ''CONFLICT'' ?m2)"
    by (simp add: str_includes_sublist [symmetric])
  from pull_pop_failure [OF a1 h2 a3 a4 h5 h6 a7 a8 a9] k1
  have r1: "fst (pullCurrentBranch (Some ?g1) [])
     = Inr \<lparr> success = True,
             message = ''Pulled successfully, but restoring your changes caused conflicts. Please resolve them.'',
             hadConflicts = Some True, autoStashed = Some True \<rparr>"
    by simp
  from pull_pop_failure [OF b1 h2 b3 b4 h5 h6 b7 b8 b9] k2
  have r2: "fst (pullCurrentBranch (Some ?g2) [])
     = Inr \<lparr> success = True,
             message = ''Pulled successfully. Your changes are in the stash (run git stash pop to restore).'',
             hadConflicts = None, autoStashed = Some True \<rparr>"
    by simp
  from r1 r2 show ?thesis by simp
qed

subsection \<open>The pull fails\<close>

text \<open>
  C4. Let the fetch and the status have succeeded with a positive behind-count, the
  stash (if the tree was dirty) have been created, and the pull fail with message \<open>m\<close>.
  Then, if a stash was created, a stash pop is issued right after the failed pull, and
  whatever it answers does not change the result. The failure is classified in this
  order. If \<open>m\<close> contains \<open>conflict\<close>, \<open>CONFLICT\<close>, \<open>Merge conflict\<close> or
  \<open>could not apply\<close>, a \<^verbatim>\<open>rebase --abort\<close> is issued, whose answer is ignored too, and the
  result has \<open>success = false\<close> and \<open>hadConflicts = true\<close>. Otherwise, if \<open>m\<close> contains
  \<open>no tracking\<close> or \<open>doesn't track\<close>, the result has \<open>success = true\<close> with the message
  "No remote tracking branch (will be created on push)". Otherwise the result has
  \<open>success = false\<close> and the message \<open>m\<close> itself.
\<close>

theorem pull_failure_classified:
  assumes "branchLocal_r g (t @ [BranchLocal]) = Inr bs"
    and "current bs \<noteq> []"
    and "fetch_r g (t @ [BranchLocal, Fetch [''origin'', current bs]]) = Inr ()"
    and "status_r g (t @ [BranchLocal, Fetch [''origin'', current bs], Status]) = Inr st"
    and "behind st > 0"
    and "hasUncommittedChanges st \<longrightarrow>
           (\<exists>out. raw_r g (t @ [BranchLocal, Fetch [''origin'', current bs], Status,
                               Raw stash_push_args]) = Inr out)"
    and "pull_r g (t @ [BranchLocal, Fetch [''origin'', current bs], Status]
                     @ (if hasUncommittedChanges st then [Raw stash_push_args] else [])
                     @ [Pull ''origin'' (current bs) [''--rebase'']]) = Inl (Error m)"
  shows "pullCurrentBranch (Some g) t =
    (Inr (if sublist ''conflict'' m \<or> sublist ''CONFLICT'' m \<or> sublist ''Merge conflict'' m
             \<or> sublist ''could not apply'' m
          then \<lparr> success = False,
                 message = ''Pull failed due to conflicts with incoming changes. Please resolve manually.'',
                 hadConflicts = Some True, autoStashed = None \<rparr>
          else if sublist ''no tracking'' m \<or> sublist ''doesn't track'' m
          then \<lparr> success = True,
                 message = ''No remote tracking branch (will be created on push)'',
                 hadConflicts = None, autoStashed = None \<rparr>
          else \<lparr> success = False, message = m, hadConflicts = None, autoStashed = None \<rparr>),
     t @ [BranchLocal, Fetch [''origin'', current bs], Status]
       @ (if hasUncommittedChanges st then [Raw stash_push_args] else [])
       @ [Pull ''origin'' (current bs) [''--rebase'']]
       @ (if hasUncommittedChanges st then [Raw [''stash'', ''pop'']] else [])
       @ (if sublist ''conflict'' m \<or> sublist ''CONFLICT'' m \<or> sublist ''Merge conflict'' m
             \<or> sublist ''could not apply'' m
          then [Rebase [''--abort'']] else []))"
proof (cases "hasUncommittedChanges st")
  case True
  with assms(6) obtain out where
    out: "raw_r g (t @ [BranchLocal, Fetch [''origin'', current bs], Status,
                        Raw stash_push_args]) = Inr out" by blast
  from assms(7) True have
    p: "pull_r g (t @ [BranchLocal, Fetch [''origin'', current bs], Status,
                       Raw stash_push_args, Pull ''origin'' (current bs) [''--rebase'']])
          = Inl (Error m)" by simp
  have "pull_try g t =
      (Inl (Error m), True,
       t @ [BranchLocal, Fetch [''origin'', current bs], Status, Raw stash_push_args,
            Pull ''origin'' (current bs) [''--rebase'']])"
    using pull_try_stashed [OF assms(1-5) True out] p by simp
  then show ?thesis using True
    by (simp add: pullCurrentBranch_Some fst_pull_catch snd_pull_catch
        is_conflict_message_def is_no_tracking_message_def str_includes_sublist)
next
  case False
  from assms(7) False have
    p: "pull_r g (t @ [BranchLocal, Fetch [''origin'', current bs], Status,
                       Pull ''origin'' (current bs) [''--rebase'']]) = Inl (Error m)" by simp
  have "pull_try g t =
      (Inl (Error m), False,
       t @ [BranchLocal, Fetch [''origin'', current bs], Status,
            Pull ''origin'' (current bs) [''--rebase'']])"
    using pull_try_clean [OF assms(1-5) False] p by simp
  then show ?thesis using False
    by (simp add: pullCurrentBranch_Some fst_pull_catch snd_pull_catch
        is_conflict_message_def is_no_tracking_message_def str_includes_sublist)
qed

text \<open>The theorem on three handles whose pull fails: with a rebase conflict after a stash
  whose pop fails as well, with no tracking information, and with a network error.\<close>

theorem pull_failure_classified_witness:
  "pullCurrentBranch (Some (sample_git\<lparr>
        pull_r := \<lambda>_. Inl (Error ''error: could not apply 1a2b3c4... Update README''),
        raw_r := \<lambda>h. if last h = Raw [''stash'', ''pop'']
                      then Inl (Error ''error: could not restore'') else Inr [] \<rparr>)) []
     = (Inr \<lparr> success = False,
              message = ''Pull failed due to conflicts with incoming changes. Please resolve manually.'',
              hadConflicts = Some True, autoStashed = None \<rparr>,
        [BranchLocal, Fetch [''origin'', ''feature''], Status, Raw stash_push_args,
         Pull ''origin'' ''feature'' [''--rebase''], Raw [''stash'', ''pop''],
         Rebase [''--abort'']])
   \<and> fst (pullCurrentBranch (Some (sample_git\<lparr>
        pull_r := \<lambda>_. Inl (Error ''There is no tracking information for the current branch.'')
        \<rparr>)) [])
     = Inr \<lparr> success = True, message = ''No remote tracking branch (will be created on push)'',
             hadConflicts = None, autoStashed = None \<rparr>
   \<and> fst (pullCurrentBranch (Some (sample_git\<lparr>
        pull_r := \<lambda>_. Inl (Error ''fatal: unable to access the remote'') \<rparr>)) [])
     = Inr \<lparr> success = False, message = ''fatal: unable to access the remote'',
             hadConflicts = None, autoStashed = None \<rparr>"
proof -
  let ?bs = "\<lparr> current = ''feature'', all_names = [''feature'', ''master''] \<rparr>"
  let ?m1 = "''error: could not apply 1a2b3c4... Update README''"
  let ?m2 = "''There is no tracking information for the current branch.''"
  let ?m3 = "''fatal: unable to access the remote''"
  let ?g1 = "sample_git\<lparr> pull_r := \<lambda>_. Inl (Error ?m1),
        raw_r := \<lambda>h. if last h = Raw [''stash'', ''pop'']
                      then Inl (Error ''error: could not restore'') else Inr [] \<rparr>"
  let ?g2 = "sample_git\<lparr> pull_r := \<lambda>_. Inl (Error ?m2) \<rparr>"
  let ?g3 = "sample_git\<lparr> pull_r := \<lambda>_. Inl (Error ?m3) \<rparr>"
  have h2: "current ?bs \<noteq> []" by simp
  have h5: "behind sample_status > 0" by (simp add: sample_status_def)
  have d: "hasUncommittedChanges sample_status"
    by (simp add: sample_status_def hasUncommittedChanges_def)
  have a1: "branchLocal_r ?g1 ([] @ [BranchLocal]) = Inr ?bs" by (simp add: sample_git_def)
  have a3: "fetch_r ?g1 ([] @ [BranchLocal, Fetch [''origin'', current ?bs]]) = Inr ()"
    by (simp add: sample_git_def)
  have a4: "status_r ?g1 ([] @ [BranchLocal, Fetch [''origin'', current ?bs], Status])
              = Inr sample_status" by (simp add: sample_git_def)
  have a6: "hasUncommittedChanges sample_status \<longrightarrow>
           (\<exists>out. raw_r ?g1 ([] @ [BranchLocal, Fetch [''origin'', current ?bs], Status,
                               Raw stash_push_args]) = Inr out)"
    by (simp add: stash_push_args_def)
  have a7: "pull_r ?g1 ([] @ [BranchLocal, Fetch [''origin'', current ?bs], Status]
                     @ (if hasUncommittedChanges sample_status then [Raw stash_push_args] else [])
                     @ [Pull ''origin'' (current ?bs) [''--rebase'']]) = Inl (Error ?m1)"
    by simp
  have b1: "branchLocal_r ?g2 ([] @ [BranchLocal]) = Inr ?bs" by (simp add: sample_git_def)
  have b3: "fetch_r ?g2 ([] @ [BranchLocal, Fetch [''origin'', current ?bs]]) = Inr ()"
    by (simp add: sample_git_def)
  have b4: "status_r ?g2 ([] @ [BranchLocal, Fetch [''origin'', current ?bs], Status])
              = Inr sample_status" by (simp add: sample_git_def)
  have b6: "hasUncommittedChanges sample_status \<longrightarrow>
           (\<exists>out. raw_r ?g2 ([] @ [BranchLocal, Fetch [''origin'', current ?bs], Status,
                               Raw stash_push_args]) = Inr out)"
    by (simp add: sample_git_def)
  have b7: "pull_r ?g2 ([] @ [BranchLocal, Fetch [''origin'', current ?bs], Status]
                     @ (if hasUncommittedChanges sample_status then [Raw stash_push_args] else [])
                     @ [Pull ''origin'' (current ?bs) [''--rebase'']]) = Inl (Error ?m2)"
    by simp
  have c1: "branchLocal_r ?g3 ([] @ [BranchLocal]) = Inr ?bs" by (simp add: sample_git_def)
  have c3: "fetch_r ?g3 ([] @ [BranchLocal, Fetch [''origin'', current ?bs]]) = Inr ()"
    by (simp add: sample_git_def)
  have c4: "status_r ?g3 ([] @ [BranchLocal, Fetch [''origin'', current ?bs], Status])
              = Inr sample_status" by (simp add: sample_git_def)
  have c6: "hasUncommittedChanges sample_status \<longrightarrow>
           (\<exists>out. raw_r ?g3 ([] @ [BranchLocal, Fetch [''origin'', current ?bs], Status,
                               Raw stash_push_args]) = Inr out)"
    by (simp add: sample_git_def)
  have c7: "pull_r ?g3 ([] @ [BranchLocal, Fetch [''origin'', current ?bs], Status]
                     @ (if hasUncommittedChanges sample_status then [Raw stash_push_args] else [])
                     @ [Pull ''origin'' (current ?bs) [''--rebase'']]) = Inl (Error ?m3)"
    by simp
  have k1: "sublist ''could not apply'' ?m1"
    by (simp add: str_includes_sublist [symmetric])
  have k2: "\<not> (sublist ''conflict'' ?m2 \<or> sublist ''CONFLICT'' ?m2
                \<or> sublist ''Merge conflict'' ?m2 \<or> sublist ''could not apply'' ?m2)"
    by (simp add: str_includes_sublist [symmetric])
  have k2': "sublist ''no tracking'' ?m2"
    by (simp add: str_includes_sublist [symmetric])
  have k3: "\<not> (sublist ''conflict'' ?m3 \<or> sublist ''CONFLICT'' ?m3
                \<or> sublist ''Merge conflict'' ?m3 \<or> sublist ''could not apply'' ?m3)"
    by (simp add: str_includes_sublist [symmetric])
  have k3': "\<not> (sublist ''no tracking'' ?m3 \<or> sublist ''doesn't track'' ?m3)"
    by (simp add: str_includes_sublist [symmetric])
  from pull_failure_classified [OF a1 h2 a3 a4 h5 a6 a7] k1 d
  have r1: "pullCurrentBranch (Some ?g1) []
     = (Inr \<lparr> success = False,
              message = ''Pull failed due to conflicts with incoming changes. Please resolve manually.'',
              hadConflicts = Some True, autoStashed = None \<rparr>,
        [BranchLocal, Fetch [''origin'', ''feature''], Status, Raw stash_push_args,
         Pull ''origin'' ''feature'' [''--rebase''], Raw [''stash'', ''pop''],
         Rebase [''--abort'']])"
    by simp
  from pull_failure_classified [OF b1 h2 b3 b4 h5 b6 b7] k2 k2'
  have r2: "fst (pullCurrentBranch (Some ?g2) [])
     = Inr \<lparr> success = True, message = ''No remote tracking branch (will be created on push)'',
             hadConflicts = None, autoStashed = None \<rparr>"
    by simp
  from pull_failure_classified [OF c1 h2 c3 c4 h5 c6 c7] k3 k3'
  have r3: "fst (pullCurrentBranch (Some ?g3) [])
     = Inr \<lparr> success = False, message = ?m3, hadConflicts = None, autoStashed = None \<rparr>"
    by simp
  from r1 r2 r3 show ?thesis by simp
qed

section \<open>The repository context\<close>

subsection \<open>The default branch\<close>




subsection \<open>Creating a context\<close>

lemma getRemoteUrl_total: "\<exists>u. fst (getRemoteUrl g t) = Inr u"
  by (simp add: getRemoteUrl_def call_def split: sum.splits option.splits)

lemma getRemoteUrl_no_origin:
  assumes "\<forall>rs. getRemotes_r g (t @ [GetRemotes True]) = Inr rs
             \<longrightarrow> ''origin'' \<notin> remote_name ` set rs"
  shows "fst (getRemoteUrl g t) = Inr None"
proof (cases "getRemotes_r g (t @ [GetRemotes True])")
  case (Inl e)
  then show ?thesis by (simp add: getRemoteUrl_def call_def)
next
  case (Inr rs)
  with assms have "''origin'' \<notin> remote_name ` set rs" by simp
  then have "find (\<lambda>r. remote_name r = ''origin'') rs = None"
    by (force simp: find_None_iff image_iff)
  with Inr show ?thesis by (simp add: getRemoteUrl_def call_def)
qed

lemma getRemoteUrl_trace: "snd (getRemoteUrl g t) = t @ [GetRemotes True]"
  by (simp add: getRemoteUrl_def call_def split: sum.splits option.splits)

lemma getDefaultBranch_total: "\<exists>b. fst (getDefaultBranch g t) = Inr b"
  by (simp add: getDefaultBranch_def call_def split: sum.splits option.splits list.splits)

lemma createRepositoryContext_repo:
  assumes "checkIsRepo_r (sg p) (t @ [CheckIsRepo]) = Inr True"
    and "revparse_r (sg p) (t @ [CheckIsRepo, Revparse [''--show-toplevel'']]) = Inr root"
  shows "\<exists>branch t'. createRepositoryContext sg uuid now p t =
     (Inr \<lparr> ctx_id = uuid, path = trim root, ctx_name = basename (trim root),
            git = sg (trim root),
            metadata = \<lparr> name = basename (trim root), defaultBranch = branch,
               remoteUrl = projr (fst (getRemoteUrl (sg p)
                  (t @ [CheckIsRepo, Revparse [''--show-toplevel'']]))),
               provider = detectProvider (projr (fst (getRemoteUrl (sg p)
                  (t @ [CheckIsRepo, Revparse [''--show-toplevel'']])))),
               lastFetched = None \<rparr>,
            lastAccessed = now \<rparr>, t')"
proof -
  obtain u where u: "getRemoteUrl (sg p) (t @ [CheckIsRepo, Revparse [''--show-toplevel'']])
      = (Inr u, t @ [CheckIsRepo, Revparse [''--show-toplevel''], GetRemotes True])"
    using getRemoteUrl_total [of "sg p" "t @ [CheckIsRepo, Revparse [''--show-toplevel'']]"]
      getRemoteUrl_trace [of "sg p" "t @ [CheckIsRepo, Revparse [''--show-toplevel'']]"]
    by (metis append.assoc append_Cons append_Nil prod.collapse)
  obtain b t4 where b: "getDefaultBranch (sg p)
      (t @ [CheckIsRepo, Revparse [''--show-toplevel''], GetRemotes True]) = (Inr b, t4)"
    using getDefaultBranch_total
      [of "sg p" "t @ [CheckIsRepo, Revparse [''--show-toplevel''], GetRemotes True]"]
    by (metis prod.collapse)
  show ?thesis using assms u b
    by (simp add: createRepositoryContext_def call_def Let_def)
qed

text \<open>
  C7. If \<^verbatim>\<open>checkIsRepo()\<close> answers that the path is not inside a git working tree,
  \<open>createRepositoryContext\<close> throws the error "Path is not a git repository: ..." and
  issues no further command. If it answers that the path is inside one and
  \<^verbatim>\<open>rev-parse --show-toplevel\<close> answers \<open>root\<close>, a context is returned, its path is \<open>root\<close>
  trimmed, whatever the path given, and when there is no remote named \<open>origin\<close> (or the
  remotes cannot be listed) its \<open>remoteUrl\<close> is \<open>null\<close>. Every context that is returned
  has as its path the trimmed answer of \<^verbatim>\<open>rev-parse --show-toplevel\<close>.
\<close>

theorem createRepositoryContext_root:
  "(checkIsRepo_r (sg p) (t @ [CheckIsRepo]) = Inr False \<longrightarrow>
      createRepositoryContext sg uuid now p t =
        (Inl (Error (''Path is not a git repository: '' @ p)), t @ [CheckIsRepo]))
   \<and> (\<forall>root. checkIsRepo_r (sg p) (t @ [CheckIsRepo]) = Inr True
        \<and> revparse_r (sg p) (t @ [CheckIsRepo, Revparse [''--show-toplevel'']]) = Inr root \<longrightarrow>
      (\<exists>ctx t'. createRepositoryContext sg uuid now p t = (Inr ctx, t')
         \<and> path ctx = trim root
         \<and> ((\<forall>rs. getRemotes_r (sg p)
                 (t @ [CheckIsRepo, Revparse [''--show-toplevel''], GetRemotes True]) = Inr rs
               \<longrightarrow> ''origin'' \<notin> remote_name ` set rs)
             \<longrightarrow> remoteUrl (metadata ctx) = None)))
   \<and> (\<forall>ctx t'. createRepositoryContext sg uuid now p t = (Inr ctx, t') \<longrightarrow>
        checkIsRepo_r (sg p) (t @ [CheckIsRepo]) = Inr True
        \<and> (\<exists>root. revparse_r (sg p) (t @ [CheckIsRepo, Revparse [''--show-toplevel'']])
               = Inr root \<and> path ctx = trim root))"
proof (intro conjI allI impI)
  assume "checkIsRepo_r (sg p) (t @ [CheckIsRepo]) = Inr False"
  then show "createRepositoryContext sg uuid now p t =
        (Inl (Error (''Path is not a git repository: '' @ p)), t @ [CheckIsRepo])"
    by (simp add: createRepositoryContext_def call_def)
next
  fix root
  assume a: "checkIsRepo_r (sg p) (t @ [CheckIsRepo]) = Inr True
        \<and> revparse_r (sg p) (t @ [CheckIsRepo, Revparse [''--show-toplevel'']]) = Inr root"
  from createRepositoryContext_repo [of sg p t root uuid now] a
  obtain branch t' where c: "createRepositoryContext sg uuid now p t =
     (Inr \<lparr> ctx_id = uuid, path = trim root, ctx_name = basename (trim root),
            git = sg (trim root),
            metadata = \<lparr> name = basename (trim root), defaultBranch = branch,
               remoteUrl = projr (fst (getRemoteUrl (sg p)
                  (t @ [CheckIsRepo, Revparse [''--show-toplevel'']]))),
               provider = detectProvider (projr (fst (getRemoteUrl (sg p)
                  (t @ [CheckIsRepo, Revparse [''--show-toplevel'']])))),
               lastFetched = None \<rparr>,
            lastAccessed = now \<rparr>, t')" by blast
  have "(\<forall>rs. getRemotes_r (sg p)
                 (t @ [CheckIsRepo, Revparse [''--show-toplevel''], GetRemotes True]) = Inr rs
               \<longrightarrow> ''origin'' \<notin> remote_name ` set rs)
      \<Longrightarrow> projr (fst (getRemoteUrl (sg p)
                  (t @ [CheckIsRepo, Revparse [''--show-toplevel'']]))) = None"
    using getRemoteUrl_no_origin [of "sg p" "t @ [CheckIsRepo, Revparse [''--show-toplevel'']]"]
    by simp
  with c show "\<exists>ctx t'. createRepositoryContext sg uuid now p t = (Inr ctx, t')
         \<and> path ctx = trim root
         \<and> ((\<forall>rs. getRemotes_r (sg p)
                 (t @ [CheckIsRepo, Revparse [''--show-toplevel''], GetRemotes True]) = Inr rs
               \<longrightarrow> ''origin'' \<notin> remote_name ` set rs)
             \<longrightarrow> remoteUrl (metadata ctx) = None)"
    by auto
next
  fix ctx t'
  assume r: "createRepositoryContext sg uuid now p t = (Inr ctx, t')"
  then show "checkIsRepo_r (sg p) (t @ [CheckIsRepo]) = Inr True"
    by (auto simp: createRepositoryContext_def call_def Let_def split: sum.splits if_splits)
  from r show "\<exists>root. revparse_r (sg p) (t @ [CheckIsRepo, Revparse [''--show-toplevel'']])
               = Inr root \<and> path ctx = trim root"
    by (auto simp: createRepositoryContext_def call_def Let_def
        split: sum.splits if_splits prod.splits)
qed

text \<open>The theorem for the subdirectory \<open>/home/dev/ledger/src\<close>: outside a working tree,
  and inside one that has no remote.\<close>

theorem createRepositoryContext_root_witness:
  "createRepositoryContext (\<lambda>_. sample_git\<lparr> checkIsRepo_r := \<lambda>_. Inr False \<rparr>)
       ''c0ffee'' 0 ''/home/dev/ledger/src'' []
     = (Inl (Error ''Path is not a git repository: /home/dev/ledger/src''), [CheckIsRepo])
   \<and> (\<exists>ctx t'. createRepositoryContext (\<lambda>_. sample_git\<lparr> getRemotes_r := \<lambda>_. Inr [] \<rparr>)
                   ''c0ffee'' 0 ''/home/dev/ledger/src'' [] = (Inr ctx, t')
         \<and> path ctx = ''/home/dev/ledger'' \<and> remoteUrl (metadata ctx) = None)"
proof -
  let ?sg1 = "\<lambda>_::string. sample_git\<lparr> checkIsRepo_r := \<lambda>_. Inr False \<rparr>"
  let ?sg2 = "\<lambda>_::string. sample_git\<lparr> getRemotes_r := \<lambda>_. Inr [] \<rparr>"
  let ?p = "''/home/dev/ledger/src''"
  have a: "checkIsRepo_r (?sg1 ?p) ([] @ [CheckIsRepo]) = Inr False" by simp
  have b: "checkIsRepo_r (?sg2 ?p) ([] @ [CheckIsRepo]) = Inr True
        \<and> revparse_r (?sg2 ?p) ([] @ [CheckIsRepo, Revparse [''--show-toplevel'']])
            = Inr (''/home/dev/ledger'' @ [CHR 0x0A])"
    by (simp add: sample_git_def)
  have c: "\<forall>rs. getRemotes_r (?sg2 ?p)
                 ([] @ [CheckIsRepo, Revparse [''--show-toplevel''], GetRemotes True]) = Inr rs
               \<longrightarrow> ''origin'' \<notin> remote_name ` set rs"
    by simp
  have tr: "trim (''/home/dev/ledger'' @ [CHR 0x0A]) = ''/home/dev/ledger''"
    by (simp add: trim_def is_space_def)
  from createRepositoryContext_root [of ?sg1 ?p "[]" "''c0ffee''" 0] a
  have r1: "createRepositoryContext ?sg1 ''c0ffee'' 0 ?p []
     = (Inl (Error (''Path is not a git repository: '' @ ?p)), [] @ [CheckIsRepo])"
    by blast
  from createRepositoryContext_root [of ?sg2 ?p "[]" "''c0ffee''" 0] b c
  have "\<exists>ctx t'. createRepositoryContext ?sg2 ''c0ffee'' 0 ?p [] = (Inr ctx, t')
         \<and> path ctx = trim (''/home/dev/ledger'' @ [CHR 0x0A]) \<and> remoteUrl (metadata ctx) = None"
    by blast
  with r1 tr show ?thesis by simp
qed

section \<open>commitChanges\<close>

text \<open>
  C5. Let the fetch have succeeded and the status report the behind-count \<open>N\<close>. If
  \<open>N > 0\<close> and \<open>force\<close> is omitted or false, \<open>commitChanges\<close> issues no commit command and
  returns the "behind" result that carries \<open>N\<close>. With \<open>force = true\<close> the commit command
  is issued whatever \<open>N\<close> is, and when it succeeds the result is the new commit.
\<close>

theorem commit_behind_gate:
  assumes "fetch_r (git ctx) (t @ [Fetch [''origin'']]) = Inr ()"
    and "status_r (git ctx) (t @ [Fetch [''origin''], Status]) = Inr st"
  shows "(behind st > 0 \<and> (force = None \<or> force = Some False) \<longrightarrow>
            commitChanges (Some ctx) msg d force t =
              (Inr (Behind (behind st)), t @ [Fetch [''origin''], Status])
            \<and> \<not> list_ex is_commit_cmd (issued t (snd (commitChanges (Some ctx) msg d force t))))
       \<and> (\<exists>res. commitChanges (Some ctx) msg d (Some True) t =
              (Inr res, t @ [Fetch [''origin''], Status,
                             Commit (msg # (case d of None \<Rightarrow> [] | Some x \<Rightarrow> [x]))])
            \<and> (\<forall>h. commit_r (git ctx) (t @ [Fetch [''origin''], Status,
                             Commit (msg # (case d of None \<Rightarrow> [] | Some x \<Rightarrow> [x]))]) = Inr h
                  \<longrightarrow> res = Committed h))"
proof (intro conjI impI)
  assume a: "behind st > 0 \<and> (force = None \<or> force = Some False)"
  then have f: "(case force of None \<Rightarrow> False | Some f \<Rightarrow> f) = False" by auto
  show "commitChanges (Some ctx) msg d force t =
              (Inr (Behind (behind st)), t @ [Fetch [''origin''], Status])"
    using assms a f
    by (simp add: commitChanges_def requireContext_def CommitService_commitChanges_def call_def)
  then show "\<not> list_ex is_commit_cmd (issued t (snd (commitChanges (Some ctx) msg d force t)))"
    by (simp add: issued_def is_commit_cmd_def)
next
  show "\<exists>res. commitChanges (Some ctx) msg d (Some True) t =
              (Inr res, t @ [Fetch [''origin''], Status,
                             Commit (msg # (case d of None \<Rightarrow> [] | Some x \<Rightarrow> [x]))])
            \<and> (\<forall>h. commit_r (git ctx) (t @ [Fetch [''origin''], Status,
                             Commit (msg # (case d of None \<Rightarrow> [] | Some x \<Rightarrow> [x]))]) = Inr h
                  \<longrightarrow> res = Committed h)"
    using assms
    by (simp add: commitChanges_def requireContext_def CommitService_commitChanges_def call_def
        split: sum.splits)
qed

text \<open>The theorem on the sample context, which is two commits behind: without \<open>force\<close>
  and with it.\<close>

theorem commit_behind_gate_witness:
  "commitChanges (Some sample_ctx) ''Fix typo'' None None [] =
     (Inr (Behind 2), [Fetch [''origin''], Status])
   \<and> commitChanges (Some sample_ctx) ''Fix typo'' None (Some True) [] =
     (Inr (Committed ''1a2b3c4''), [Fetch [''origin''], Status, Commit [''Fix typo'']])"
proof -
  have h1: "fetch_r (git sample_ctx) ([] @ [Fetch [''origin'']]) = Inr ()"
    by (simp add: sample_ctx_def sample_git_def)
  have h2: "status_r (git sample_ctx) ([] @ [Fetch [''origin''], Status]) = Inr sample_status"
    by (simp add: sample_ctx_def sample_git_def)
  have b: "behind sample_status = 2" by (simp add: sample_status_def)
  have c: "commit_r (git sample_ctx) ([] @ [Fetch [''origin''], Status,
              Commit (''Fix typo'' # (case None of None \<Rightarrow> [] | Some x \<Rightarrow> [x]))]) = Inr ''1a2b3c4''"
    by (simp add: sample_ctx_def sample_git_def)
  from commit_behind_gate [OF h1 h2, of None "''Fix typo''" None] b
  have r1: "commitChanges (Some sample_ctx) ''Fix typo'' None None [] =
     (Inr (Behind 2), [Fetch [''origin''], Status])"
    by simp
  from commit_behind_gate [OF h1 h2, of None "''Fix typo''" None] c
  have r2: "commitChanges (Some sample_ctx) ''Fix typo'' None (Some True) [] =
     (Inr (Committed ''1a2b3c4''), [Fetch [''origin''], Status, Commit [''Fix typo'']])"
    by auto
  from r1 r2 show ?thesis by simp
qed

section \<open>The select-repo handler\<close>

text \<open>
  C10. When the dialog returns a selected path and \<open>manager.open\<close> of that path throws,
  the select-repo handler does not throw: it sets the legacy \<open>repoPath\<close> (and the legacy
  git handle) to the path as selected, stores that path as the last repository path and
  returns it. The caller gets a path, as it does when \<open>manager.open\<close> succeeds, where the
  path returned is the one of the context.
\<close>

theorem select_repo_open_fails:
  assumes "\<not> canceled r"
    and "filePaths r = selectedPath # others"
    and "manager_open selectedPath s = (Inl err, s1)"
  shows "select_repo sg manager_open r s =
           (Inr (Some selectedPath),
            s1\<lparr> legacy_repoPath := Some selectedPath,
                legacy_git := Some (sg selectedPath),
                lastRepoPath := Some selectedPath \<rparr>)
         \<and> getRepoPath (snd (select_repo sg manager_open r s)) = Some selectedPath
         \<and> (\<forall>mo ctx s2. mo selectedPath s = (Inr ctx, s2) \<longrightarrow>
               fst (select_repo sg mo r s) = Inr (Some (path ctx)))"
  using assms
  by (simp add: select_repo_def setRepoPath_def saveLastRepoPath_def getRepoPath_def)

text \<open>The theorem for a selected directory that is not a repository.\<close>

theorem select_repo_open_fails_witness:
  "select_repo (\<lambda>_. sample_git)
      (\<lambda>p s. (Inl (Error (''Path is not a git repository: '' @ p)), s))
      \<lparr> canceled = False, filePaths = [''/home/dev/notes''] \<rparr> sample_state =
     (Inr (Some ''/home/dev/notes''),
      \<lparr> legacy_git = Some sample_git, legacy_repoPath = Some ''/home/dev/notes'',
        lastRepoPath = Some ''/home/dev/notes'', manager = () \<rparr>)"
proof -
  let ?r = "\<lparr> canceled = False, filePaths = [''/home/dev/notes''] \<rparr>"
  let ?mo = "\<lambda>(p::string) (s::unit AppState).
      (Inl (Error (''Path is not a git repository: '' @ p)) :: error + RepositoryContext, s)"
  have h1: "\<not> canceled ?r" by simp
  have h2: "filePaths ?r = ''/home/dev/notes'' # []" by simp
  have h3: "?mo ''/home/dev/notes'' sample_state =
      (Inl (Error (''Path is not a git repository: '' @ ''/home/dev/notes'')), sample_state)"
    by simp
  from select_repo_open_fails [where r = ?r and manager_open = ?mo and s = sample_state
      and sg = "\<lambda>_. sample_git", OF h1 h2 h3]
  show ?thesis by (simp add: sample_state_def)
qed

end
